theory Spec2Isabelle
  imports Main "HOL-Library.Word"
begin

unbundle bit_operations_syntax

section \<open>Byte buffers and views\<close>

text \<open>
  The builder of \<^verbatim>\<open>src/hooks/useNotebook.ts\<close> allocates an \<^verbatim>\<open>ArrayBuffer\<close>, writes
  into it through a \<^verbatim>\<open>DataView\<close> and a \<^verbatim>\<open>Uint8Array\<close>, and reads its input through
  another \<^verbatim>\<open>Uint8Array\<close>. Buffers are objects with identity, so they live in a store:
  a reference is the index of the buffer in the list of all buffers allocated so far,
  and allocation appends. The engine running out of memory is outside the model.
\<close>

type_synonym byte = "8 word"
type_synonym ref = nat
type_synonym heap = "byte list list"

text \<open>The exceptions the modelled code can raise.\<close>

datatype exn = RangeError | Error string

definition and_then :: "exn + 'a \<Rightarrow> ('a \<Rightarrow> exn + 'b) \<Rightarrow> exn + 'b" where
  "and_then m f = (case m of Inl e \<Rightarrow> Inl e | Inr x \<Rightarrow> f x)"

definition byteLength :: "heap \<Rightarrow> ref \<Rightarrow> nat" where
  "byteLength h b = length (h ! b)"

text \<open>\<^verbatim>\<open>new ArrayBuffer(n)\<close>: a fresh buffer of \<open>n\<close> zero bytes.\<close>

definition new_ArrayBuffer :: "nat \<Rightarrow> heap \<Rightarrow> ref \<times> heap" where
  "new_ArrayBuffer n h = (length h, h @ [replicate n 0])"

text \<open>
  A \<^verbatim>\<open>DataView\<close> or \<^verbatim>\<open>Uint8Array\<close>: a window of \<open>view_length\<close> bytes starting at
  \<open>view_byteOffset\<close> of the buffer \<open>view_buffer\<close>.
\<close>

record view =
  view_buffer :: ref
  view_byteOffset :: nat
  view_length :: nat

definition new_DataView :: "heap \<Rightarrow> ref \<Rightarrow> view" where
  "new_DataView h b = \<lparr>view_buffer = b, view_byteOffset = 0, view_length = byteLength h b\<rparr>"

definition new_Uint8Array :: "heap \<Rightarrow> ref \<Rightarrow> view" where
  "new_Uint8Array h b = \<lparr>view_buffer = b, view_byteOffset = 0, view_length = byteLength h b\<rparr>"

text \<open>\<^verbatim>\<open>new Uint8Array(buffer, byteOffset)\<close> raises when the offset is past the end.\<close>

definition new_Uint8Array_at :: "heap \<Rightarrow> ref \<Rightarrow> nat \<Rightarrow> exn + view" where
  "new_Uint8Array_at h b off =
     (if byteLength h b < off then Inl RangeError
      else Inr \<lparr>view_buffer = b, view_byteOffset = off, view_length = byteLength h b - off\<rparr>)"

definition write_at :: "nat \<Rightarrow> 'a list \<Rightarrow> 'a list \<Rightarrow> 'a list" where
  "write_at pos bs mem = take pos mem @ bs @ drop (pos + length bs) mem"

text \<open>Writing bytes through a view: out of the view's range is a \<^verbatim>\<open>RangeError\<close>.\<close>

definition setBytes :: "view \<Rightarrow> nat \<Rightarrow> byte list \<Rightarrow> heap \<Rightarrow> exn + heap" where
  "setBytes v off bs h =
     (if view_length v < off + length bs then Inl RangeError
      else Inr (h[view_buffer v := write_at (view_byteOffset v + off) bs (h ! view_buffer v)]))"

definition uint16_bytes :: "16 word \<Rightarrow> byte list" where
  "uint16_bytes w = [ucast w, ucast (drop_bit 8 w)]"

definition uint32_bytes :: "32 word \<Rightarrow> byte list" where
  "uint32_bytes w = [ucast w, ucast (drop_bit 8 w), ucast (drop_bit 16 w), ucast (drop_bit 24 w)]"

text \<open>
  The \<^verbatim>\<open>DataView\<close> setters. The value is a JavaScript number; the callers pass integers,
  modelled as \<open>int\<close>, and the setter keeps the value modulo \<open>2 ^ 8\<close>, \<open>2 ^ 16\<close> or
  \<open>2 ^ 32\<close> (\<^verbatim>\<open>ToUint8\<close>, \<^verbatim>\<open>ToUint16\<close>, \<^verbatim>\<open>ToUint32\<close>), which is what \<open>word_of_int\<close> does.
  The last argument of the wider setters is \<^verbatim>\<open>littleEndian\<close>.
\<close>

definition setUint8 :: "view \<Rightarrow> nat \<Rightarrow> int \<Rightarrow> heap \<Rightarrow> exn + heap" where
  "setUint8 v off val h = setBytes v off [word_of_int val] h"

definition setUint16 :: "view \<Rightarrow> nat \<Rightarrow> int \<Rightarrow> bool \<Rightarrow> heap \<Rightarrow> exn + heap" where
  "setUint16 v off val littleEndian h =
     setBytes v off (if littleEndian then uint16_bytes (word_of_int val)
                     else rev (uint16_bytes (word_of_int val))) h"

definition setUint32 :: "view \<Rightarrow> nat \<Rightarrow> int \<Rightarrow> bool \<Rightarrow> heap \<Rightarrow> exn + heap" where
  "setUint32 v off val littleEndian h =
     setBytes v off (if littleEndian then uint32_bytes (word_of_int val)
                     else rev (uint32_bytes (word_of_int val))) h"

text \<open>
  \<^verbatim>\<open>target.set(source)\<close> of typed arrays: the bytes seen through \<open>source\<close> are copied to
  the start of \<open>target\<close>; a source longer than the target is a \<^verbatim>\<open>RangeError\<close>.
\<close>

definition typedArray_set :: "view \<Rightarrow> view \<Rightarrow> heap \<Rightarrow> exn + heap" where
  "typedArray_set target source h =
     setBytes target 0
       (take (view_length source) (drop (view_byteOffset source) (h ! view_buffer source))) h"

section \<open>The WAV builder\<close>

text \<open>
  \<^verbatim>\<open>writeString\<close>, the local helper of \<^verbatim>\<open>addWavHeader\<close>: the loop over the characters
  of the string, one \<^verbatim>\<open>setUint8\<close> of the character code at each next offset.
\<close>

fun writeString :: "view \<Rightarrow> nat \<Rightarrow> string \<Rightarrow> heap \<Rightarrow> exn + heap" where
  "writeString v offset [] h = Inr h"
| "writeString v offset (c # cs) h =
     and_then (setUint8 v offset (of_char c) h) (writeString v (Suc offset) cs)"

text \<open>
  \<^verbatim>\<open>addWavHeader(samples, sampleRate, numChannels)\<close>, statement by statement. The
  two numbers are integers, as the specification has them; the source computes with
  doubles, which is exact as long as the products stay below \<open>2 ^ 53\<close>.
\<close>

definition addWavHeader :: "ref \<Rightarrow> int \<Rightarrow> int \<Rightarrow> heap \<Rightarrow> exn + (ref \<times> heap)" where
  "addWavHeader samples sampleRate numChannels h0 =
     (let (buffer, h) = new_ArrayBuffer (44 + byteLength h0 samples) h0;
          view = new_DataView h buffer
      in and_then (writeString view 0 ''RIFF'' h) (\<lambda>h.
         and_then (setUint32 view 4 (36 + int (byteLength h samples)) True h) (\<lambda>h.
         and_then (writeString view 8 ''WAVE'' h) (\<lambda>h.
         and_then (writeString view 12 ''fmt '' h) (\<lambda>h.
         and_then (setUint32 view 16 16 True h) (\<lambda>h.
         and_then (setUint16 view 20 1 True h) (\<lambda>h.
         and_then (setUint16 view 22 numChannels True h) (\<lambda>h.
         and_then (setUint32 view 24 sampleRate True h) (\<lambda>h.
         and_then (setUint32 view 28 (sampleRate * numChannels * 2) True h) (\<lambda>h.
         and_then (setUint16 view 32 (numChannels * 2) True h) (\<lambda>h.
         and_then (setUint16 view 34 16 True h) (\<lambda>h.
         and_then (writeString view 36 ''data'' h) (\<lambda>h.
         and_then (setUint32 view 40 (int (byteLength h samples)) True h) (\<lambda>h.
         and_then (new_Uint8Array_at h buffer 44) (\<lambda>target.
         and_then (typedArray_set target (new_Uint8Array h samples) h) (\<lambda>h.
         Inr (buffer, h)))))))))))))))))"

text \<open>
  What the caller gets back: the bytes of the returned buffer, in the store the call
  leaves behind.
\<close>

definition returned_buffer :: "exn + (ref \<times> heap) \<Rightarrow> byte list option" where
  "returned_buffer r = (case r of Inl e \<Rightarrow> None | Inr (b, h) \<Rightarrow> Some (h ! b))"

definition returned_heap :: "exn + (ref \<times> heap) \<Rightarrow> heap option" where
  "returned_heap r = (case r of Inl e \<Rightarrow> None | Inr (b, h) \<Rightarrow> Some h)"

section \<open>The audio overview of the notebook hook\<close>

text \<open>
  The data of \<^verbatim>\<open>types.ts\<close> that \<^verbatim>\<open>generateAudio\<close> touches: a source document and
  the state of the audio overview.
\<close>

datatype source_type = text_source | file_source

record Source =
  source_id :: string
  source_name :: string
  source_content :: string
  source_mimeType :: string
  source_data :: "string option"
  source_type :: source_type
  source_dateAdded :: nat

datatype status = S_idle | S_generating_script | S_synthesizing | S_ready | S_error

record AudioOverviewState =
  status :: status
  audioUrl :: "string option"
  script :: "string option"
  error :: "string option"

text \<open>
  The generative service is outside the repository. A request names what the service
  functions send (the prompt of \<^verbatim>\<open>generatePodcastScript\<close> is a fixed template around
  the sources and the language; \<^verbatim>\<open>synthesizePodcastAudio\<close> sends the script), and a
  response carries the two fields the code reads: \<^verbatim>\<open>response.text\<close> and the
  \<^verbatim>\<open>inlineData.data\<close> of the first part of the first candidate, each possibly absent.
\<close>

datatype request = ScriptRequest "Source list" string | SpeechRequest string

record response =
  response_text :: "string option"
  response_inlineData :: "string option"

text \<open>
  What the environment provides: the service call \<^verbatim>\<open>ai.models.generateContent\<close>, which
  answers or rejects (a client that cannot be built by \<^verbatim>\<open>getAI\<close> counts as a
  rejection), the browser's \<^verbatim>\<open>atob\<close>, which decodes to a string of character codes
  up to 255 or raises, and \<^verbatim>\<open>URL.createObjectURL\<close> on a blob of the given bytes.
\<close>

record env =
  generateContent :: "request \<Rightarrow> exn + response"
  atob :: "string \<Rightarrow> exn + string"
  createObjectURL :: "byte list \<Rightarrow> string"

text \<open>
  Everything \<^verbatim>\<open>generateAudio\<close> does to the outside, in order: state updates of the
  hook, requests to the service, object URLs created, errors written to the console.
\<close>

datatype effect =
    SetAudioOverview AudioOverviewState
  | GenerateContent request
  | CreateObjectURL "byte list"
  | ConsoleError exn

text \<open>
  The state the hook closes over (\<open>sources\<close>, \<open>audioOverview\<close>), the store of buffers,
  and the effects so far.
\<close>

record world =
  sources :: "Source list"
  audioOverview :: AudioOverviewState
  store :: heap
  effects :: "effect list"

definition emit :: "effect \<Rightarrow> world \<Rightarrow> world" where
  "emit e w = w\<lparr>effects := effects w @ [e]\<rparr>"

definition setAudioOverview :: "AudioOverviewState \<Rightarrow> world \<Rightarrow> world" where
  "setAudioOverview a w = emit (SetAudioOverview a) (w\<lparr>audioOverview := a\<rparr>)"

text \<open>The script read off an answer: \<^verbatim>\<open>response.text || ""\<close>.\<close>

definition script_of :: "response \<Rightarrow> string" where
  "script_of r = (case response_text r of None \<Rightarrow> [] | Some t \<Rightarrow> t)"

text \<open>
  \<^verbatim>\<open>generatePodcastScript\<close>: one request; a rejection propagates, and the result is
  the script of the answer.
\<close>

definition generatePodcastScript ::
  "env \<Rightarrow> Source list \<Rightarrow> string \<Rightarrow> world \<Rightarrow> (exn + string) \<times> world" where
  "generatePodcastScript ev srcs language w =
     (let w = emit (GenerateContent (ScriptRequest srcs language)) w
      in case generateContent ev (ScriptRequest srcs language) of
           Inl e \<Rightarrow> (Inl e, w)
         | Inr r \<Rightarrow> (Inr (script_of r), w))"

text \<open>
  An element store \<^verbatim>\<open>bytes[i] = v\<close> of a \<^verbatim>\<open>Uint8Array\<close> keeps \<open>v\<close> modulo 256 and
  ignores an index outside the array.
\<close>

definition typedArray_store :: "view \<Rightarrow> nat \<Rightarrow> int \<Rightarrow> heap \<Rightarrow> heap" where
  "typedArray_store v i val h =
     (if i < view_length v
      then h[view_buffer v := (h ! view_buffer v)[view_byteOffset v + i := word_of_int val]]
      else h)"

text \<open>The copying loop of \<^verbatim>\<open>synthesizePodcastAudio\<close>, from index \<open>i\<close> on.\<close>

fun copy_binaryString :: "view \<Rightarrow> nat \<Rightarrow> string \<Rightarrow> heap \<Rightarrow> heap" where
  "copy_binaryString bytes i [] h = h"
| "copy_binaryString bytes i (c # cs) h =
     copy_binaryString bytes (Suc i) cs (typedArray_store bytes i (of_char c) h)"

text \<open>
  \<^verbatim>\<open>synthesizePodcastAudio\<close>: one request; no audio data in the answer (absent or empty)
  raises \<^verbatim>\<open>Error("No audio data generated")\<close>; otherwise the decoded characters are
  copied into a fresh buffer, which is returned.
\<close>

definition synthesizePodcastAudio ::
  "env \<Rightarrow> string \<Rightarrow> world \<Rightarrow> (exn + ref) \<times> world" where
  "synthesizePodcastAudio ev scr w =
     (let w = emit (GenerateContent (SpeechRequest scr)) w
      in case generateContent ev (SpeechRequest scr) of
           Inl e \<Rightarrow> (Inl e, w)
         | Inr r \<Rightarrow>
             (case response_inlineData r of
                None \<Rightarrow> (Inl (Error ''No audio data generated''), w)
              | Some base64Audio \<Rightarrow>
                  if base64Audio = [] then (Inl (Error ''No audio data generated''), w)
                  else (case atob ev base64Audio of
                          Inl e \<Rightarrow> (Inl e, w)
                        | Inr binaryString \<Rightarrow>
                            (let (buffer, h) = new_ArrayBuffer (length binaryString) (store w);
                                 bytes = new_Uint8Array h buffer;
                                 h = copy_binaryString bytes 0 binaryString h
                             in (Inr buffer, w\<lparr>store := h\<rparr>)))))"

text \<open>The \<^verbatim>\<open>catch\<close> block of \<^verbatim>\<open>generateAudio\<close>.\<close>

definition catch_generateAudio :: "exn \<Rightarrow> world \<Rightarrow> world" where
  "catch_generateAudio e w =
     setAudioOverview
       \<lparr>status = S_error, audioUrl = None, script = None,
        error = Some ''Failed to generate audio.''\<rparr>
       (emit (ConsoleError e) w)"

text \<open>
  \<^verbatim>\<open>generateAudio(language = 'English')\<close>. An awaited promise that rejects, and
  anything raised inside the \<^verbatim>\<open>try\<close> block, goes to the \<^verbatim>\<open>catch\<close> block.
\<close>

definition generateAudio :: "env \<Rightarrow> string option \<Rightarrow> world \<Rightarrow> world" where
  "generateAudio ev language_arg w =
     (let language = (case language_arg of None \<Rightarrow> ''English'' | Some l \<Rightarrow> l)
      in if length (sources w) = 0 then w
         else
           (let w = setAudioOverview
                      \<lparr>status = S_generating_script, audioUrl = None, script = None,
                       error = None\<rparr> w
            in case generatePodcastScript ev (sources w) language w of
                 (Inl e, w) \<Rightarrow> catch_generateAudio e w
               | (Inr scr, w) \<Rightarrow>
                   (let w = setAudioOverview
                              \<lparr>status = S_synthesizing, audioUrl = None, script = Some scr,
                               error = None\<rparr> w
                    in case synthesizePodcastAudio ev scr w of
                         (Inl e, w) \<Rightarrow> catch_generateAudio e w
                       | (Inr audioBuffer, w) \<Rightarrow>
                           (case addWavHeader audioBuffer 24000 1 (store w) of
                              Inl e \<Rightarrow> catch_generateAudio e w
                            | Inr (wavBuffer, h) \<Rightarrow>
                                (let w = w\<lparr>store := h\<rparr>;
                                     blob = store w ! wavBuffer;
                                     audioUrl = createObjectURL ev blob;
                                     w = emit (CreateObjectURL blob) w
                                 in setAudioOverview
                                      \<lparr>status = S_ready, audioUrl = Some audioUrl,
                                       script = Some scr, error = None\<rparr> w)))))"

text \<open>The effects a call adds to those already there.\<close>

definition new_effects :: "world \<Rightarrow> world \<Rightarrow> effect list" where
  "new_effects w w' = drop (length (effects w)) (effects w')"

section \<open>Reading a WAV file\<close>

text \<open>
  The observations the specification makes of the output: a range of bytes, and the
  unsigned little-endian integer held by two or four bytes at an offset. Each is
  \<open>None\<close> when the range does not lie inside the buffer.
\<close>

fun le_value :: "byte list \<Rightarrow> int" where
  "le_value [] = 0"
| "le_value (b # bs) = uint b + 256 * le_value bs"

definition bytes_at :: "nat \<Rightarrow> nat \<Rightarrow> byte list \<Rightarrow> byte list option" where
  "bytes_at off n bs = (if off + n \<le> length bs then Some (take n (drop off bs)) else None)"

definition u16le_at :: "nat \<Rightarrow> byte list \<Rightarrow> int option" where
  "u16le_at off bs = map_option le_value (bytes_at off 2 bs)"

definition u32le_at :: "nat \<Rightarrow> byte list \<Rightarrow> int option" where
  "u32le_at off bs = map_option le_value (bytes_at off 4 bs)"

text \<open>The 44 bytes that the statements of \<^verbatim>\<open>addWavHeader\<close> leave at the start of the buffer.\<close>

definition wav_header :: "nat \<Rightarrow> int \<Rightarrow> int \<Rightarrow> byte list" where
  "wav_header n sampleRate numChannels =
     map of_char ''RIFF'' @ uint32_bytes (word_of_int (36 + int n)) @
     map of_char ''WAVE'' @ map of_char ''fmt '' @
     uint32_bytes 16 @ uint16_bytes 1 @ uint16_bytes (word_of_int numChannels) @
     uint32_bytes (word_of_int sampleRate) @
     uint32_bytes (word_of_int (sampleRate * numChannels * 2)) @
     uint16_bytes (word_of_int (numChannels * 2)) @ uint16_bytes 16 @
     map of_char ''data'' @ uint32_bytes (word_of_int (int n))"

section \<open>The order of a run, as the specification words it\<close>

text \<open>
  A run of \<^verbatim>\<open>generateAudio\<close> on a non-empty list of sources is sequential when its
  effects are, in this order: the state set to \<open>generating_script\<close>; the script request;
  then either an error on the console and the state set to \<open>error\<close>, or the state set to
  \<open>synthesizing\<close> with the script and the speech request for that script; then either an
  error on the console and the state set to \<open>error\<close>, or an object URL and the state set
  to \<open>ready\<close>. Nothing follows the final state, and no request occurs twice.
\<close>

definition after_speech :: "effect list \<Rightarrow> bool" where
  "after_speech tr =
     (case tr of
        [ConsoleError e, SetAudioOverview z] \<Rightarrow> status z = S_error
      | [CreateObjectURL wav, SetAudioOverview z] \<Rightarrow> status z = S_ready
      | _ \<Rightarrow> False)"

definition after_script :: "effect list \<Rightarrow> bool" where
  "after_script tr =
     (case tr of
        [ConsoleError e, SetAudioOverview z] \<Rightarrow> status z = S_error
      | SetAudioOverview b # GenerateContent (SpeechRequest s) # rest \<Rightarrow>
          status b = S_synthesizing \<and> script b = Some s \<and> after_speech rest
      | _ \<Rightarrow> False)"

definition sequential_run :: "effect list \<Rightarrow> bool" where
  "sequential_run tr =
     (case tr of
        SetAudioOverview a # GenerateContent (ScriptRequest srcs l) # rest \<Rightarrow>
          status a = S_generating_script \<and> after_script rest
      | _ \<Rightarrow> False)"

section \<open>A concrete notebook\<close>

text \<open>
  One text source, a service that answers both requests (the speech as four bytes of
  PCM), a service that rejects every request, and a service that answers the speech
  request with no audio data.
\<close>

definition example_source :: Source where
  "example_source =
     \<lparr>source_id = ''s1'', source_name = ''notes.txt'', source_content = ''PCM audio'',
      source_mimeType = ''text/plain'', source_data = None, source_type = text_source,
      source_dateAdded = 0\<rparr>"

definition example_world :: world where
  "example_world =
     \<lparr>sources = [example_source],
      audioOverview = \<lparr>status = S_idle, audioUrl = None, script = None, error = None\<rparr>,
      store = [], effects = []\<rparr>"

definition example_env :: env where
  "example_env =
     \<lparr>generateContent = (\<lambda>q. case q of
          ScriptRequest srcs l \<Rightarrow>
            Inr \<lparr>response_text = Some ''Alex: Hi'', response_inlineData = None\<rparr>
        | SpeechRequest s \<Rightarrow>
            Inr \<lparr>response_text = None, response_inlineData = Some ''AQACAA==''\<rparr>),
      atob = (\<lambda>b. Inr [CHR 0x01, CHR 0x00, CHR 0x02, CHR 0x00]),
      createObjectURL = (\<lambda>b. ''blob:wav'')\<rparr>"

definition offline_env :: env where
  "offline_env =
     \<lparr>generateContent = (\<lambda>q. Inl (Error ''Failed to fetch'')),
      atob = (\<lambda>b. Inr []),
      createObjectURL = (\<lambda>b. ''blob:wav'')\<rparr>"

definition silent_env :: env where
  "silent_env =
     \<lparr>generateContent = (\<lambda>q. case q of
          ScriptRequest srcs l \<Rightarrow>
            Inr \<lparr>response_text = Some ''Alex: Hi'', response_inlineData = None\<rparr>
        | SpeechRequest s \<Rightarrow>
            Inr \<lparr>response_text = None, response_inlineData = None\<rparr>),
      atob = (\<lambda>b. Inr []),
      createObjectURL = (\<lambda>b. ''blob:wav'')\<rparr>"

definition example_wav :: "byte list" where
  "example_wav =
     [82, 73, 70, 70, 40, 0, 0, 0, 87, 65, 86, 69, 102, 109, 116, 32, 16, 0, 0, 0, 1, 0, 1, 0,
      192, 93, 0, 0, 128, 187, 0, 0, 2, 0, 16, 0, 100, 97, 116, 97, 4, 0, 0, 0, 1, 0, 2, 0]"

section \<open>Lemmas on the store and on little-endian bytes\<close>

lemma replicate_44:
  "replicate 44 (0::byte) =
     [0,0,0,0,0,0,0,0,0,0,0,0,0,0,0,0,0,0,0,0,0,0,
      0,0,0,0,0,0,0,0,0,0,0,0,0,0,0,0,0,0,0,0,0,0]"
  by code_simp

lemma addWavHeader_result:
  assumes "samples < length h"
  shows "addWavHeader samples sampleRate numChannels h =
     Inr (length h, h @ [wav_header (length (h ! samples)) sampleRate numChannels @ h ! samples])"
  using assms
  apply (simp add: addWavHeader_def new_ArrayBuffer_def new_DataView_def byteLength_def
     setUint8_def setUint16_def setUint32_def setBytes_def and_then_def nth_append
     new_Uint8Array_at_def new_Uint8Array_def typedArray_set_def uint16_bytes_def uint32_bytes_def
     replicate_add replicate_44 write_at_def wav_header_def)
  done

lemma uint_byte_of:
  "uint (ucast (drop_bit k w) :: byte) = (uint (w :: 'a::len word) div 2 ^ k) mod 256"
proof -
  have "uint (ucast (drop_bit k w) :: byte) = take_bit 8 (uint (drop_bit k w))"
    by (simp add: unsigned_ucast_eq)
  also have "uint (drop_bit k w) = uint w div 2 ^ k"
  proof -
    have "uint (drop_bit k w) = drop_bit k (take_bit LENGTH('a) (uint w))"
      by (rule unsigned_drop_bit_eq)
    also have "take_bit LENGTH('a) (uint w) = uint w"
      by (simp add: take_bit_int_eq_self uint_lt2p)
    finally show ?thesis by (simp only: drop_bit_eq_div)
  qed
  finally show ?thesis
    by (simp add: take_bit_eq_mod)
qed

lemma split16:
  assumes "0 \<le> (x::int)" "x < 65536"
  shows "x mod 256 + 256 * (x div 256 mod 256) = x"
proof -
  have "x div 256 < 256" using assms by simp
  moreover have "0 \<le> x div 256" using assms by simp
  ultimately have "x div 256 mod 256 = x div 256" by simp
  then show ?thesis by simp
qed

lemma split32:
  assumes "0 \<le> (x::int)" "x < 4294967296"
  shows "x mod 256 + (256 * (x div 256 mod 256) + (65536 * (x div 65536 mod 256)
           + 16777216 * (x div 16777216 mod 256))) = x"
proof -
  define y where "y = x div 256"
  define z where "z = y div 256"
  define u where "u = z div 256"
  have zx: "x div 65536 = z"
    using zdiv_zmult2_eq [of 256 x 256] by (simp add: y_def z_def)
  have ux: "x div 16777216 = u"
    using zdiv_zmult2_eq [of 256 x 65536] zx by (simp add: u_def)
  have "0 \<le> u" "u < 256" using assms ux [symmetric] by simp_all
  then have uu: "u mod 256 = u" by simp
  have x: "x = x mod 256 + 256 * y" by (simp add: y_def)
  have y: "y = y mod 256 + 256 * z" by (simp add: z_def)
  have z: "z = z mod 256 + 256 * u" by (simp add: u_def)
  show ?thesis
    unfolding zx ux uu y_def [symmetric] using x y z by linarith
qed

lemma le_value_uint16: "le_value (uint16_bytes w) = uint w"
proof -
  have "uint w < 2 ^ 16" using uint_lt2p [of w] by simp
  moreover have "0 \<le> uint w" by simp
  ultimately show ?thesis
    using uint_byte_of [of 0 w] uint_byte_of [of 8 w]
    by (simp add: uint16_bytes_def split16) 
qed

lemma le_value_uint32: "le_value (uint32_bytes w) = uint w"
proof -
  have "uint w < 2 ^ 32" using uint_lt2p [of w] by simp
  moreover have "0 \<le> uint w" by simp
  ultimately show ?thesis
    using uint_byte_of [of 0 w] uint_byte_of [of 8 w] uint_byte_of [of 16 w] uint_byte_of [of 24 w]
    by (simp add: uint32_bytes_def split32) 
qed

lemma length_uint16_bytes: "length (uint16_bytes w) = 2"
  by (simp add: uint16_bytes_def)

lemma length_uint32_bytes: "length (uint32_bytes w) = 4"
  by (simp add: uint32_bytes_def)

lemma length_wav_header: "length (wav_header n sampleRate numChannels) = 44"
  by (simp add: wav_header_def length_uint16_bytes length_uint32_bytes)

lemmas field_simps_wav = u16le_at_def u32le_at_def bytes_at_def
  length_uint16_bytes length_uint32_bytes le_value_uint16 le_value_uint32

lemma header_u32_4: "u32le_at 4 (wav_header n sr nc @ rest) = Some ((36 + int n) mod 2 ^ 32)"
proof -
  define w where "w = (word_of_int (36 + int n) :: 32 word)"
  have "u32le_at 4 (wav_header n sr nc @ rest) = Some (uint w)"
    unfolding wav_header_def w_def [symmetric] by (simp add: field_simps_wav)
  then show ?thesis
    unfolding w_def uint_word_of_int by simp
qed

lemma header_u32_40: "u32le_at 40 (wav_header n sr nc @ rest) = Some (int n mod 2 ^ 32)"
proof -
  define w where "w = (word_of_int (int n) :: 32 word)"
  have "u32le_at 40 (wav_header n sr nc @ rest) = Some (uint w)"
    unfolding wav_header_def w_def [symmetric] by (simp add: field_simps_wav)
  then show ?thesis
    unfolding w_def uint_word_of_int by simp
qed

lemma header_u16_22: "u16le_at 22 (wav_header n sr nc @ rest) = Some (nc mod 2 ^ 16)"
proof -
  define w where "w = (word_of_int (nc) :: 16 word)"
  have "u16le_at 22 (wav_header n sr nc @ rest) = Some (uint w)"
    unfolding wav_header_def w_def [symmetric] by (simp add: field_simps_wav)
  then show ?thesis
    unfolding w_def uint_word_of_int by simp
qed

lemma header_u32_24: "u32le_at 24 (wav_header n sr nc @ rest) = Some (sr mod 2 ^ 32)"
proof -
  define w where "w = (word_of_int (sr) :: 32 word)"
  have "u32le_at 24 (wav_header n sr nc @ rest) = Some (uint w)"
    unfolding wav_header_def w_def [symmetric] by (simp add: field_simps_wav)
  then show ?thesis
    unfolding w_def uint_word_of_int by simp
qed

lemma header_u32_28: "u32le_at 28 (wav_header n sr nc @ rest) = Some ((sr * nc * 2) mod 2 ^ 32)"
proof -
  define w where "w = (word_of_int (sr * nc * 2) :: 32 word)"
  have "u32le_at 28 (wav_header n sr nc @ rest) = Some (uint w)"
    unfolding wav_header_def w_def [symmetric] by (simp add: field_simps_wav)
  then show ?thesis
    unfolding w_def uint_word_of_int by simp
qed

lemma header_u16_32: "u16le_at 32 (wav_header n sr nc @ rest) = Some ((nc * 2) mod 2 ^ 16)"
proof -
  define w where "w = (word_of_int (nc * 2) :: 16 word)"
  have "u16le_at 32 (wav_header n sr nc @ rest) = Some (uint w)"
    unfolding wav_header_def w_def [symmetric] by (simp add: field_simps_wav)
  then show ?thesis
    unfolding w_def uint_word_of_int by simp
qed

lemma header_u32_16: "u32le_at 16 (wav_header n sr nc @ rest) = Some 16"
  by (simp add: wav_header_def field_simps_wav)

lemma header_u16_20: "u16le_at 20 (wav_header n sr nc @ rest) = Some 1"
  by (simp add: wav_header_def field_simps_wav)

lemma header_u16_34: "u16le_at 34 (wav_header n sr nc @ rest) = Some 16"
  by (simp add: wav_header_def field_simps_wav)

lemma returned_buffer_addWavHeader:
  "samples < length h \<Longrightarrow>
   returned_buffer (addWavHeader samples sr nc h) = Some (wav_header (length (h ! samples)) sr nc @ h ! samples)"
  by (simp add: addWavHeader_result returned_buffer_def)

lemma returned_heap_addWavHeader:
  "samples < length h \<Longrightarrow>
   returned_heap (addWavHeader samples sr nc h) = Some (h @ [wav_header (length (h ! samples)) sr nc @ h ! samples])"
  by (simp add: addWavHeader_result returned_heap_def)

section \<open>Lemmas on the run of the audio overview\<close>

lemma length_typedArray_store: "length (typedArray_store v i val h) = length h"
  by (simp add: typedArray_store_def)

lemma length_copy_binaryString: "length (copy_binaryString v i s h) = length h"
  by (induction s arbitrary: i h) (simp_all add: length_typedArray_store)

lemma generateAudio_empty: "sources w = [] \<Longrightarrow> generateAudio ev language w = w"
  by (simp add: generateAudio_def)

lemma synthesizePodcastAudio_effects:
  "effects (snd (synthesizePodcastAudio ev s w)) = effects w @ [GenerateContent (SpeechRequest s)]"
  by (simp add: synthesizePodcastAudio_def emit_def new_ArrayBuffer_def Let_def
      split: sum.splits option.splits)

lemma synthesizePodcastAudio_ref:
  "synthesizePodcastAudio ev s w = (Inr b, w') \<Longrightarrow> b < length (store w')"
  by (auto simp add: synthesizePodcastAudio_def emit_def new_ArrayBuffer_def Let_def
      length_copy_binaryString split: sum.splits option.splits if_splits)

lemma synthesizePodcastAudio_answered:
  "synthesizePodcastAudio ev s w = (Inr b, w') \<Longrightarrow> \<exists>r. generateContent ev (SpeechRequest s) = Inr r"
  by (auto simp add: synthesizePodcastAudio_def Let_def split: sum.splits option.splits if_splits)

lemma synthesizePodcastAudio_isl:
  "isl (fst (synthesizePodcastAudio ev s w)) \<longleftrightarrow>
     (case generateContent ev (SpeechRequest s) of
        Inl e \<Rightarrow> True
      | Inr r \<Rightarrow> (case response_inlineData r of
                    None \<Rightarrow> True
                  | Some base64Audio \<Rightarrow> base64Audio = [] \<or> isl (atob ev base64Audio)))"
  by (simp add: synthesizePodcastAudio_def new_ArrayBuffer_def Let_def
      split: sum.splits option.splits)

lemma synthesizePodcastAudio_isl_world:
  "isl (fst (synthesizePodcastAudio ev s w)) = isl (fst (synthesizePodcastAudio ev s w'))"
  by (simp only: synthesizePodcastAudio_isl)

lemma generatePodcastScript_result:
  "generatePodcastScript ev srcs l w =
     (map_sum id script_of (generateContent ev (ScriptRequest srcs l)),
      w\<lparr>effects := effects w @ [GenerateContent (ScriptRequest srcs l)]\<rparr>)"
  by (simp add: generatePodcastScript_def emit_def Let_def split: sum.splits)

lemmas run_defs = generateAudio_def generatePodcastScript_result catch_generateAudio_def
  setAudioOverview_def emit_def new_effects_def sequential_run_def after_script_def
  after_speech_def Let_def

lemma generateAudio_effects_cases:
  assumes "sources w \<noteq> []"
  shows "(\<exists>a q e z. new_effects w (generateAudio ev language w)
            = [SetAudioOverview a, GenerateContent q, ConsoleError e, SetAudioOverview z]) \<or>
         (\<exists>a q b q' e z. new_effects w (generateAudio ev language w)
            = [SetAudioOverview a, GenerateContent q, SetAudioOverview b, GenerateContent q',
               ConsoleError e, SetAudioOverview z]) \<or>
         (\<exists>a q b q' z h samples. samples < length h \<and>
            new_effects w (generateAudio ev language w)
            = [SetAudioOverview a, GenerateContent q, SetAudioOverview b, GenerateContent q',
               CreateObjectURL (wav_header (length (h ! samples)) 24000 1 @ h ! samples),
               SetAudioOverview z])"
proof -
  define l where "l = (case language of None \<Rightarrow> ''English'' | Some l \<Rightarrow> l)"
  define w1 where "w1 = w\<lparr>audioOverview := \<lparr>status = S_generating_script, audioUrl = None,
     script = None, error = None\<rparr>, effects := effects w @ [SetAudioOverview \<lparr>status = S_generating_script, audioUrl = None,
     script = None, error = None\<rparr>, GenerateContent (ScriptRequest (sources w) l)]\<rparr>"
  show ?thesis
  proof (cases "generateContent ev (ScriptRequest (sources w) l)")
    case (Inl e)
    then show ?thesis
      using assms unfolding l_def by (simp add: run_defs)
  next
    case (Inr r)
    define w3 where "w3 = w1\<lparr>audioOverview := \<lparr>status = S_synthesizing, audioUrl = None,
      script = Some (script_of r), error = None\<rparr>, effects := effects w1 @ [SetAudioOverview \<lparr>status = S_synthesizing, audioUrl = None,
      script = Some (script_of r), error = None\<rparr>]\<rparr>"
    obtain x w4 where syn: "synthesizePodcastAudio ev (script_of r) w3 = (x, w4)"
      by (cases "synthesizePodcastAudio ev (script_of r) w3") blast
    have eff: "effects w4 = effects w3 @ [GenerateContent (SpeechRequest (script_of r))]"
      using synthesizePodcastAudio_effects [of ev "script_of r" w3] syn by simp
    show ?thesis
    proof (cases x)
      case (Inl e)
      then show ?thesis
        using assms Inr syn eff unfolding l_def w3_def w1_def
        by (simp add: run_defs)
    next
      case b: (Inr b)
      have ref: "b < length (store w4)"
        using synthesizePodcastAudio_ref syn b by blast
      have "new_effects w (generateAudio ev language w)
            = [SetAudioOverview \<lparr>status = S_generating_script, audioUrl = None, script = None, error = None\<rparr>,
               GenerateContent (ScriptRequest (sources w) l),
               SetAudioOverview \<lparr>status = S_synthesizing, audioUrl = None, script = Some (script_of r), error = None\<rparr>,
               GenerateContent (SpeechRequest (script_of r)),
               CreateObjectURL (wav_header (length (store w4 ! b)) 24000 1 @ store w4 ! b),
               SetAudioOverview \<lparr>status = S_ready,
                 audioUrl = Some (createObjectURL ev (wav_header (length (store w4 ! b)) 24000 1 @ store w4 ! b)),
                 script = Some (script_of r), error = None\<rparr>]"
        using assms Inr syn eff b ref unfolding l_def w3_def w1_def
        by (simp add: run_defs addWavHeader_result)
      with ref show ?thesis by blast
    qed
  qed
qed

section \<open>The concrete notebook, evaluated\<close>

lemma example_wav_header:
  "wav_header (Suc (Suc (Suc (Suc 0)))) 24000 1 @ [1, 0, 2, 0] = example_wav"
  by (simp add: wav_header_def uint32_bytes_def uint16_bytes_def example_wav_def)

lemma example_audio:
  "synthesizePodcastAudio example_env s w =
     (Inr (length (store w)),
      w\<lparr>store := store w @ [[1, 0, 2, 0]], effects := effects w @ [GenerateContent (SpeechRequest s)]\<rparr>)"
  by (simp add: synthesizePodcastAudio_def example_env_def emit_def new_ArrayBuffer_def
      new_Uint8Array_def typedArray_store_def byteLength_def)


lemma example_effects: "effects example_world = []"
  by (simp add: example_world_def)

lemma example_run:
  "generateAudio example_env None example_world =
     \<lparr>sources = [example_source],
      audioOverview = \<lparr>status = S_ready, audioUrl = Some ''blob:wav'',
                        script = Some ''Alex: Hi'', error = None\<rparr>,
      store = [[1, 0, 2, 0], example_wav],
      effects =
        [SetAudioOverview \<lparr>status = S_generating_script, audioUrl = None, script = None,
                            error = None\<rparr>,
         GenerateContent (ScriptRequest [example_source] ''English''),
         SetAudioOverview \<lparr>status = S_synthesizing, audioUrl = None,
                            script = Some ''Alex: Hi'', error = None\<rparr>,
         GenerateContent (SpeechRequest ''Alex: Hi''),
         CreateObjectURL example_wav,
         SetAudioOverview \<lparr>status = S_ready, audioUrl = Some ''blob:wav'',
                            script = Some ''Alex: Hi'', error = None\<rparr>]\<rparr>"
  by (simp add: generateAudio_def generatePodcastScript_result example_audio setAudioOverview_def
      emit_def example_world_def addWavHeader_result example_wav_header script_of_def Let_def
      example_env_def [THEN arg_cong [of _ _ generateContent], simplified]
      example_env_def [THEN arg_cong [of _ _ createObjectURL], simplified])

lemma offline_run:
  "generateAudio offline_env None example_world =
     \<lparr>sources = [example_source],
      audioOverview = \<lparr>status = S_error, audioUrl = None, script = None,
                        error = Some ''Failed to generate audio.''\<rparr>,
      store = [],
      effects =
        [SetAudioOverview \<lparr>status = S_generating_script, audioUrl = None, script = None,
                            error = None\<rparr>,
         GenerateContent (ScriptRequest [example_source] ''English''),
         ConsoleError (Error ''Failed to fetch''),
         SetAudioOverview \<lparr>status = S_error, audioUrl = None, script = None,
                            error = Some ''Failed to generate audio.''\<rparr>]\<rparr>"
  by (simp add: generateAudio_def generatePodcastScript_result setAudioOverview_def
      emit_def example_world_def catch_generateAudio_def offline_env_def)

lemma silent_fails:
  "fst (synthesizePodcastAudio silent_env ''Alex: Hi'' example_world)
     = Inl (Error ''No audio data generated'')"
  by (simp add: synthesizePodcastAudio_def silent_env_def)

lemma silent_script:
  "fst (generatePodcastScript silent_env (sources example_world) ''English'' example_world)
     = Inr ''Alex: Hi''"
  by (simp add: generatePodcastScript_result silent_env_def script_of_def)

lemma offline_script:
  "fst (generatePodcastScript offline_env (sources example_world) ''English'' example_world)
     = Inl (Error ''Failed to fetch'')"
  by (simp add: generatePodcastScript_result offline_env_def)

section \<open>The WAV builder: length of the output\<close>

text \<open>
  C1. For every samples buffer (any buffer of the store) and every \<open>sampleRate\<close> and
  \<open>numChannels\<close>, in particular the positive ones, \<open>addWavHeader\<close> returns a buffer
  whose byte length is exactly 44 plus the byte length of the samples.
\<close>

theorem addWavHeader_length:
  assumes "samples < length h"
  shows "map_option length (returned_buffer (addWavHeader samples sampleRate numChannels h))
           = Some (44 + byteLength h samples)"
  using assms
  by (simp add: addWavHeader_result returned_buffer_def byteLength_def wav_header_def
      uint32_bytes_def uint16_bytes_def)

theorem addWavHeader_length_witness:
  "(0::nat) < length [[1, 0, 2, 0 :: byte]] \<and>
   map_option length (returned_buffer (addWavHeader 0 24000 1 [[1, 0, 2, 0]])) = Some 48"
  using addWavHeader_length [of 0 "[[1, 0, 2, 0]]" 24000 1]
  by (simp add: byteLength_def)

section \<open>The WAV builder: declared sizes\<close>

text \<open>
  C2, as the code has it. The field at offset 4 is a 32-bit integer: it equals
  \<open>36 + samples.length\<close> when that is below \<open>2 ^ 32\<close>, and the field at offset 40 equals
  \<open>samples.length\<close> when that is below \<open>2 ^ 32\<close>. Both are written by \<^verbatim>\<open>setUint32\<close>,
  which keeps its argument modulo \<open>2 ^ 32\<close>.
\<close>

theorem addWavHeader_sizes:
  assumes "samples < length h"
  shows "(36 + byteLength h samples < 2 ^ 32 \<longrightarrow>
            Option.bind (returned_buffer (addWavHeader samples sampleRate numChannels h)) (u32le_at 4)
              = Some (36 + int (byteLength h samples))) \<and>
         (byteLength h samples < 2 ^ 32 \<longrightarrow>
            Option.bind (returned_buffer (addWavHeader samples sampleRate numChannels h)) (u32le_at 40)
              = Some (int (byteLength h samples)))"
  using assms
  by (simp add: returned_buffer_addWavHeader header_u32_4 header_u32_40 byteLength_def)

theorem addWavHeader_sizes_witness:
  "(0::nat) < length [[1, 0, 2, 0 :: byte]] \<and>
   36 + byteLength [[1, 0, 2, 0]] 0 < 2 ^ 32 \<and>
   byteLength [[1, 0, 2, 0]] 0 < 2 ^ 32 \<and>
   Option.bind (returned_buffer (addWavHeader 0 24000 1 [[1, 0, 2, 0]])) (u32le_at 4) = Some 40 \<and>
   Option.bind (returned_buffer (addWavHeader 0 24000 1 [[1, 0, 2, 0]])) (u32le_at 40) = Some 4"
  using addWavHeader_sizes [of 0 "[[1, 0, 2, 0]]" 24000 1]
  by (simp add: byteLength_def)

text \<open>
  C2 as stated, for every buffer, fails on a buffer of \<open>2 ^ 32 - 36\<close> bytes: the field
  at offset 4 is then 0, not \<open>2 ^ 32\<close>.
\<close>

theorem addWavHeader_sizes_counterexample:
  "Option.bind (returned_buffer (addWavHeader 0 24000 1 [replicate 4294967260 0])) (u32le_at 4)
     = Some 0 \<and>
   36 + int (byteLength [replicate 4294967260 0] 0) = 4294967296"
  by (simp add: returned_buffer_addWavHeader header_u32_4 byteLength_def)

section \<open>The WAV builder: chunk identifiers\<close>

text \<open>
  C3. For every input, bytes 0 to 3 of the output are the ASCII codes of \<open>RIFF\<close>, bytes
  8 to 11 those of \<open>WAVE\<close>, bytes 12 to 15 those of \<open>fmt\<close> and a space, and bytes 36 to
  39 those of \<open>data\<close>.
\<close>

theorem addWavHeader_tags:
  assumes "samples < length h"
  shows "Option.bind (returned_buffer (addWavHeader samples sampleRate numChannels h)) (bytes_at 0 4)
           = Some [0x52, 0x49, 0x46, 0x46] \<and>
         Option.bind (returned_buffer (addWavHeader samples sampleRate numChannels h)) (bytes_at 8 4)
           = Some [0x57, 0x41, 0x56, 0x45] \<and>
         Option.bind (returned_buffer (addWavHeader samples sampleRate numChannels h)) (bytes_at 12 4)
           = Some [0x66, 0x6D, 0x74, 0x20] \<and>
         Option.bind (returned_buffer (addWavHeader samples sampleRate numChannels h)) (bytes_at 36 4)
           = Some [0x64, 0x61, 0x74, 0x61]"
  using assms
  by (simp add: returned_buffer_addWavHeader bytes_at_def wav_header_def
      length_uint16_bytes length_uint32_bytes)

theorem addWavHeader_tags_witness:
  "(0::nat) < length [[1, 0, 2, 0 :: byte]] \<and>
   Option.bind (returned_buffer (addWavHeader 0 24000 1 [[1, 0, 2, 0]])) (bytes_at 0 4)
     = Some (map of_char ''RIFF'') \<and>
   Option.bind (returned_buffer (addWavHeader 0 24000 1 [[1, 0, 2, 0]])) (bytes_at 8 4)
     = Some (map of_char ''WAVE'') \<and>
   Option.bind (returned_buffer (addWavHeader 0 24000 1 [[1, 0, 2, 0]])) (bytes_at 12 4)
     = Some (map of_char ''fmt '') \<and>
   Option.bind (returned_buffer (addWavHeader 0 24000 1 [[1, 0, 2, 0]])) (bytes_at 36 4)
     = Some (map of_char ''data'')"
  using addWavHeader_tags [of 0 "[[1, 0, 2, 0]]" 24000 1]
  by simp

section \<open>The WAV builder: format fields\<close>

text \<open>
  C4, as the code has it. For positive \<open>sampleRate\<close> and \<open>numChannels\<close> the fields at
  offsets 16, 20 and 34 are 16, 1 and 16; each of the other four holds its value when the
  value fits the field: \<open>numChannels\<close> below \<open>2 ^ 16\<close> at offset 22, \<open>sampleRate\<close> below
  \<open>2 ^ 32\<close> at offset 24, \<open>sampleRate * numChannels * 2\<close> below \<open>2 ^ 32\<close> at offset 28,
  \<open>numChannels * 2\<close> below \<open>2 ^ 16\<close> at offset 32.
\<close>

theorem addWavHeader_format:
  assumes "samples < length h" and "0 < sampleRate" and "0 < numChannels"
  shows "Option.bind (returned_buffer (addWavHeader samples sampleRate numChannels h)) (u32le_at 16)
           = Some 16 \<and>
         Option.bind (returned_buffer (addWavHeader samples sampleRate numChannels h)) (u16le_at 20)
           = Some 1 \<and>
         (numChannels < 2 ^ 16 \<longrightarrow>
          Option.bind (returned_buffer (addWavHeader samples sampleRate numChannels h)) (u16le_at 22)
           = Some numChannels) \<and>
         (sampleRate < 2 ^ 32 \<longrightarrow>
          Option.bind (returned_buffer (addWavHeader samples sampleRate numChannels h)) (u32le_at 24)
           = Some sampleRate) \<and>
         (sampleRate * numChannels * 2 < 2 ^ 32 \<longrightarrow>
          Option.bind (returned_buffer (addWavHeader samples sampleRate numChannels h)) (u32le_at 28)
           = Some (sampleRate * numChannels * 2)) \<and>
         (numChannels * 2 < 2 ^ 16 \<longrightarrow>
          Option.bind (returned_buffer (addWavHeader samples sampleRate numChannels h)) (u16le_at 32)
           = Some (numChannels * 2)) \<and>
         Option.bind (returned_buffer (addWavHeader samples sampleRate numChannels h)) (u16le_at 34)
           = Some 16"
  using assms
  by (simp add: returned_buffer_addWavHeader header_u32_16 header_u16_20 header_u16_22
      header_u32_24 header_u32_28 header_u16_32 header_u16_34)

theorem addWavHeader_format_witness:
  "(0::nat) < length [[1, 0, 2, 0 :: byte]] \<and> (0::int) < 24000 \<and> (0::int) < 1 \<and>
   (1::int) < 2 ^ 16 \<and> (24000::int) < 2 ^ 32 \<and> (24000::int) * 1 * 2 < 2 ^ 32 \<and>
   (1::int) * 2 < 2 ^ 16 \<and>
   Option.bind (returned_buffer (addWavHeader 0 24000 1 [[1, 0, 2, 0]])) (u32le_at 16) = Some 16 \<and>
   Option.bind (returned_buffer (addWavHeader 0 24000 1 [[1, 0, 2, 0]])) (u16le_at 20) = Some 1 \<and>
   Option.bind (returned_buffer (addWavHeader 0 24000 1 [[1, 0, 2, 0]])) (u16le_at 22) = Some 1 \<and>
   Option.bind (returned_buffer (addWavHeader 0 24000 1 [[1, 0, 2, 0]])) (u32le_at 24) = Some 24000 \<and>
   Option.bind (returned_buffer (addWavHeader 0 24000 1 [[1, 0, 2, 0]])) (u32le_at 28) = Some 48000 \<and>
   Option.bind (returned_buffer (addWavHeader 0 24000 1 [[1, 0, 2, 0]])) (u16le_at 32) = Some 2 \<and>
   Option.bind (returned_buffer (addWavHeader 0 24000 1 [[1, 0, 2, 0]])) (u16le_at 34) = Some 16"
  using addWavHeader_format [of 0 "[[1, 0, 2, 0]]" 24000 1]
  by simp

text \<open>
  C4 as stated, with no upper bound, fails at \<open>numChannels = 65536\<close>: the 16-bit field
  at offset 22 cannot hold it.
\<close>

theorem addWavHeader_format_counterexample:
  "(0::int) < 24000 \<and> (0::int) < 65536 \<and>
   Option.bind (returned_buffer (addWavHeader 0 24000 65536 [[1, 0, 2, 0]])) (u16le_at 22)
     \<noteq> Some 65536"
  by (simp add: returned_buffer_addWavHeader header_u16_22)

section \<open>The WAV builder: payload\<close>

text \<open>
  C5. The bytes of the output from offset 44 on, as many as the samples has, are the
  samples byte for byte, and after the call the samples buffer holds what it held before.
\<close>

theorem addWavHeader_payload:
  assumes "samples < length h"
  shows "Option.bind (returned_buffer (addWavHeader samples sampleRate numChannels h))
           (bytes_at 44 (byteLength h samples)) = Some (h ! samples) \<and>
         map_option (\<lambda>h'. h' ! samples) (returned_heap (addWavHeader samples sampleRate numChannels h))
           = Some (h ! samples)"
  using assms
  by (simp add: returned_buffer_addWavHeader returned_heap_addWavHeader bytes_at_def
      length_wav_header byteLength_def nth_append)

theorem addWavHeader_payload_witness:
  "(0::nat) < length [[1, 0, 2, 0 :: byte]] \<and>
   Option.bind (returned_buffer (addWavHeader 0 24000 1 [[1, 0, 2, 0]]))
     (bytes_at 44 (byteLength [[1, 0, 2, 0]] 0)) = Some [1, 0, 2, 0] \<and>
   map_option (\<lambda>h'. h' ! 0) (returned_heap (addWavHeader 0 24000 1 [[1, 0, 2, 0]]))
     = Some [1, 0, 2, 0]"
  using addWavHeader_payload [of 0 "[[1, 0, 2, 0]]" 24000 1]
  by simp

section \<open>The WAV builder: determinism\<close>

text \<open>
  C6. Two calls with the same \<open>sampleRate\<close> and \<open>numChannels\<close> on sample buffers with the
  same bytes, whichever buffers they are and whatever else the two stores hold, return
  buffers with the same bytes; the call returns, and it leaves every buffer that existed
  before it as it was. The builder takes no argument but these and the store, and gives
  back nothing but the new buffer.
\<close>

theorem addWavHeader_deterministic:
  assumes "samples1 < length h1" and "samples2 < length h2" and "h1 ! samples1 = h2 ! samples2"
  shows "returned_buffer (addWavHeader samples1 sampleRate numChannels h1)
           = returned_buffer (addWavHeader samples2 sampleRate numChannels h2) \<and>
         returned_buffer (addWavHeader samples1 sampleRate numChannels h1) \<noteq> None \<and>
         map_option (take (length h1)) (returned_heap (addWavHeader samples1 sampleRate numChannels h1))
           = Some h1"
  using assms
  by (simp add: returned_buffer_addWavHeader returned_heap_addWavHeader)

theorem addWavHeader_deterministic_witness:
  "(0::nat) < length [[1, 0, 2, 0 :: byte]] \<and> (1::nat) < length [[7 :: byte], [1, 0, 2, 0]] \<and>
   [[1, 0, 2, 0 :: byte]] ! 0 = [[7], [1, 0, 2, 0]] ! 1 \<and>
   returned_buffer (addWavHeader 0 24000 1 [[1, 0, 2, 0]])
     = returned_buffer (addWavHeader 1 24000 1 [[7], [1, 0, 2, 0]]) \<and>
   returned_buffer (addWavHeader 0 24000 1 [[1, 0, 2, 0]]) \<noteq> None \<and>
   map_option (take (length [[1, 0, 2, 0 :: byte]])) (returned_heap (addWavHeader 0 24000 1 [[1, 0, 2, 0]]))
     = Some [[1, 0, 2, 0]]"
proof -
  have a: "(0::nat) < length [[1, 0, 2, 0 :: byte]]" by simp
  have b: "(1::nat) < length [[7 :: byte], [1, 0, 2, 0]]" by simp
  have c: "[[1, 0, 2, 0 :: byte]] ! 0 = [[7], [1, 0, 2, 0]] ! 1" by simp
  show ?thesis
    using a b c addWavHeader_deterministic [OF a b c, of 24000 1] by blast
qed

section \<open>The WAV builder: no error\<close>

text \<open>
  C7. \<open>addWavHeader\<close> raises nothing, whatever the integers \<open>sampleRate\<close> and
  \<open>numChannels\<close> are (zero and negative included) and also on empty samples; on empty
  samples the output is 44 bytes long, with 36 in the field at offset 4 and 0 in the
  field at offset 40.
\<close>

theorem addWavHeader_never_fails:
  assumes "samples < length h"
  shows "(\<exists>r. addWavHeader samples sampleRate numChannels h = Inr r) \<and>
         (byteLength h samples = 0 \<longrightarrow>
            map_option length (returned_buffer (addWavHeader samples sampleRate numChannels h)) = Some 44 \<and>
            Option.bind (returned_buffer (addWavHeader samples sampleRate numChannels h)) (u32le_at 4) = Some 36 \<and>
            Option.bind (returned_buffer (addWavHeader samples sampleRate numChannels h)) (u32le_at 40) = Some 0)"
  using assms
  by (simp add: addWavHeader_result returned_buffer_def header_u32_4 [of 0 _ _ "[]", simplified]
      header_u32_40 [of 0 _ _ "[]", simplified] length_wav_header byteLength_def)

theorem addWavHeader_never_fails_witness:
  "(0::nat) < length [[] :: byte list] \<and> byteLength [[]] 0 = 0 \<and>
   (\<exists>r. addWavHeader 0 (- 16000) 0 [[]] = Inr r) \<and>
   map_option length (returned_buffer (addWavHeader 0 (- 16000) 0 [[]])) = Some 44 \<and>
   Option.bind (returned_buffer (addWavHeader 0 (- 16000) 0 [[]])) (u32le_at 4) = Some 36 \<and>
   Option.bind (returned_buffer (addWavHeader 0 (- 16000) 0 [[]])) (u32le_at 40) = Some 0"
  using addWavHeader_never_fails [of 0 "[[]]" "- 16000" 0]
  by (simp add: byteLength_def)

section \<open>The audio overview: order of a run\<close>

text \<open>
  C8. With sources present, a run of \<open>generateAudio\<close> is sequential: the state goes
  through \<open>generating_script\<close>, then \<open>synthesizing\<close>, then \<open>ready\<close>, or stops at \<open>error\<close>
  right after the console error of a failure, with no request sent again. The state the
  hook ends in is the last one set. A speech request is sent only for the script that the
  script request was answered with, and the run ends \<open>ready\<close> only if both requests
  were answered. Any failure ends in \<open>error\<close>: when \<open>generatePodcastScript\<close> fails, and
  when \<open>synthesizePodcastAudio\<close> fails on the script returned (a rejected request, no
  audio data in the answer, or \<open>atob\<close> raising); when both return, the run ends \<open>ready\<close>.
  Whether a service function fails does not depend on the world it is called in.
\<close>

theorem generateAudio_sequential:
  assumes "sources w \<noteq> []"
  shows "sequential_run (new_effects w (generateAudio ev language w)) \<and>
         last (new_effects w (generateAudio ev language w))
           = SetAudioOverview (audioOverview (generateAudio ev language w)) \<and>
         (\<forall>s. GenerateContent (SpeechRequest s) \<in> set (new_effects w (generateAudio ev language w)) \<longrightarrow>
              (\<exists>r. generateContent ev
                     (ScriptRequest (sources w) (case language of None \<Rightarrow> ''English'' | Some l \<Rightarrow> l))
                       = Inr r \<and> s = script_of r)) \<and>
         (status (audioOverview (generateAudio ev language w)) = S_ready \<longrightarrow>
              (\<exists>r r'. generateContent ev
                     (ScriptRequest (sources w) (case language of None \<Rightarrow> ''English'' | Some l \<Rightarrow> l))
                       = Inr r \<and> generateContent ev (SpeechRequest (script_of r)) = Inr r')) \<and>
         (\<forall>w' e. fst (generatePodcastScript ev (sources w)
                        (case language of None \<Rightarrow> ''English'' | Some l \<Rightarrow> l) w') = Inl e \<longrightarrow>
              status (audioOverview (generateAudio ev language w)) = S_error) \<and>
         (\<forall>w' w'' s e. fst (generatePodcastScript ev (sources w)
                        (case language of None \<Rightarrow> ''English'' | Some l \<Rightarrow> l) w') = Inr s \<longrightarrow>
              fst (synthesizePodcastAudio ev s w'') = Inl e \<longrightarrow>
              status (audioOverview (generateAudio ev language w)) = S_error) \<and>
         (\<forall>w' w'' s b. fst (generatePodcastScript ev (sources w)
                        (case language of None \<Rightarrow> ''English'' | Some l \<Rightarrow> l) w') = Inr s \<longrightarrow>
              fst (synthesizePodcastAudio ev s w'') = Inr b \<longrightarrow>
              status (audioOverview (generateAudio ev language w)) = S_ready)"
proof -
  define l where "l = (case language of None \<Rightarrow> ''English'' | Some l \<Rightarrow> l)"
  define w1 where "w1 = w\<lparr>audioOverview := \<lparr>status = S_generating_script, audioUrl = None,
     script = None, error = None\<rparr>, effects := effects w @ [SetAudioOverview \<lparr>status = S_generating_script, audioUrl = None,
     script = None, error = None\<rparr>, GenerateContent (ScriptRequest (sources w) l)]\<rparr>"
  show ?thesis
  proof (cases "generateContent ev (ScriptRequest (sources w) l)")
    case (Inl e)
    then show ?thesis
      using assms unfolding l_def by (simp add: run_defs)
  next
    case (Inr r)
    define w3 where "w3 = w1\<lparr>audioOverview := \<lparr>status = S_synthesizing, audioUrl = None,
      script = Some (script_of r), error = None\<rparr>, effects := effects w1 @ [SetAudioOverview \<lparr>status = S_synthesizing, audioUrl = None,
      script = Some (script_of r), error = None\<rparr>]\<rparr>"
    obtain x w4 where syn: "synthesizePodcastAudio ev (script_of r) w3 = (x, w4)"
      by (cases "synthesizePodcastAudio ev (script_of r) w3") blast
    have eff: "effects w4 = effects w3 @ [GenerateContent (SpeechRequest (script_of r))]"
      using synthesizePodcastAudio_effects [of ev "script_of r" w3] syn by simp
    show ?thesis
    proof (cases x)
      case (Inl e)
      have fails: "fst (synthesizePodcastAudio ev (script_of r) w'') \<noteq> Inr b" for w'' b
        using synthesizePodcastAudio_isl_world [of ev "script_of r" w3 w''] syn Inl
        by auto
      from Inl show ?thesis
        using assms Inr syn eff fails unfolding l_def w3_def w1_def
        by (simp add: run_defs)
    next
      case b: (Inr b)
      have ref: "b < length (store w4)"
        using synthesizePodcastAudio_ref syn b by blast
      have succeeds: "fst (synthesizePodcastAudio ev (script_of r) w'') \<noteq> Inl e" for w'' e
        using synthesizePodcastAudio_isl_world [of ev "script_of r" w3 w''] syn b
        by auto
      obtain r' where "generateContent ev (SpeechRequest (script_of r)) = Inr r'"
        using synthesizePodcastAudio_answered syn b by blast
      then show ?thesis
        using assms Inr syn eff b ref succeeds unfolding l_def w3_def w1_def
        by (simp add: run_defs addWavHeader_result)
    qed
  qed
qed

theorem generateAudio_sequential_witness:
  "sources example_world \<noteq> [] \<and>
   sequential_run (new_effects example_world (generateAudio example_env None example_world)) \<and>
   GenerateContent (SpeechRequest ''Alex: Hi'')
     \<in> set (new_effects example_world (generateAudio example_env None example_world)) \<and>
   status (audioOverview (generateAudio example_env None example_world)) = S_ready \<and>
   (\<exists>r r'. generateContent example_env (ScriptRequest (sources example_world) ''English'') = Inr r \<and>
      ''Alex: Hi'' = script_of r \<and>
      generateContent example_env (SpeechRequest (script_of r)) = Inr r') \<and>
   sequential_run (new_effects example_world (generateAudio offline_env None example_world)) \<and>
   fst (generatePodcastScript offline_env (sources example_world) ''English'' example_world)
     = Inl (Error ''Failed to fetch'') \<and>
   status (audioOverview (generateAudio offline_env None example_world)) = S_error \<and>
   fst (generatePodcastScript silent_env (sources example_world) ''English'' example_world)
     = Inr ''Alex: Hi'' \<and>
   fst (synthesizePodcastAudio silent_env ''Alex: Hi'' example_world)
     = Inl (Error ''No audio data generated'') \<and>
   status (audioOverview (generateAudio silent_env None example_world)) = S_error"
proof -
  have src: "sources example_world \<noteq> []"
    by (simp add: example_world_def)
  have sp: "GenerateContent (SpeechRequest ''Alex: Hi'')
     \<in> set (new_effects example_world (generateAudio example_env None example_world))"
    by (simp add: example_run new_effects_def example_effects)
  have rd: "status (audioOverview (generateAudio example_env None example_world)) = S_ready"
    by (simp add: example_run)
  note ok = generateAudio_sequential [OF src, of example_env None]
  note off = generateAudio_sequential [OF src, of offline_env None]
  note sil = generateAudio_sequential [OF src, of silent_env None]
  have e1: "status (audioOverview (generateAudio offline_env None example_world)) = S_error"
    using off offline_script by (simp del: split_paired_All) blast
  have e2: "status (audioOverview (generateAudio silent_env None example_world)) = S_error"
    using sil silent_script silent_fails by (simp del: split_paired_All) blast
  show ?thesis
    using src sp rd e1 e2 ok off offline_script silent_script silent_fails
    by auto
qed

section \<open>The audio overview: no sources\<close>

text \<open>
  C9. With an empty list of sources \<open>generateAudio\<close> returns at once: no request, no
  effect at all, and the state of the audio overview (like the rest of the world) is what
  it was, whatever it was.
\<close>

theorem generateAudio_no_sources:
  assumes "sources w = []"
  shows "generateAudio ev language w = w"
  using assms by (simp add: generateAudio_def)

theorem generateAudio_no_sources_witness:
  "sources (example_world\<lparr>sources := []\<rparr>) = [] \<and>
   generateAudio example_env None (example_world\<lparr>sources := []\<rparr>) = example_world\<lparr>sources := []\<rparr>"
  using generateAudio_no_sources [of "example_world\<lparr>sources := []\<rparr>" example_env None]
  by simp

section \<open>The audio overview: parameters of the WAV file\<close>

text \<open>
  C10. Whatever the environment answers, every blob that a run of \<open>generateAudio\<close> makes
  an object URL of is the output of \<open>addWavHeader\<close> with sample rate 24000 and one
  channel: its header declares 1 channel, 24000 Hz, byte rate 48000 and block align 2.
\<close>

theorem generateAudio_wav_parameters:
  assumes "CreateObjectURL wav \<in> set (new_effects w (generateAudio ev language w))"
  shows "(\<exists>h samples. samples < length h \<and>
            returned_buffer (addWavHeader samples 24000 1 h) = Some wav) \<and>
         u16le_at 22 wav = Some 1 \<and> u32le_at 24 wav = Some 24000 \<and>
         u32le_at 28 wav = Some 48000 \<and> u16le_at 32 wav = Some 2"
proof (cases "sources w = []")
  case True
  then show ?thesis
    using assms by (simp add: generateAudio_empty new_effects_def)
next
  case False
  from generateAudio_effects_cases [OF False, of ev language] assms
  obtain h samples where s: "samples < length h"
    and wav: "wav = wav_header (length (h ! samples)) 24000 1 @ h ! samples"
    by auto
  have "returned_buffer (addWavHeader samples 24000 1 h) = Some wav"
    using s wav by (simp add: returned_buffer_addWavHeader)
  with s show ?thesis
    unfolding wav
    by (auto simp add: header_u16_22 header_u32_24 header_u32_28 header_u16_32)
qed

theorem generateAudio_wav_parameters_witness:
  "CreateObjectURL example_wav
     \<in> set (new_effects example_world (generateAudio example_env None example_world)) \<and>
   u16le_at 22 example_wav = Some 1 \<and> u32le_at 24 example_wav = Some 24000 \<and>
   u32le_at 28 example_wav = Some 48000 \<and> u16le_at 32 example_wav = Some 2"
proof -
  have m: "CreateObjectURL example_wav
     \<in> set (new_effects example_world (generateAudio example_env None example_world))"
    by (simp add: example_run new_effects_def example_effects)
  show ?thesis
    using m generateAudio_wav_parameters [OF m] by simp
qed

end
